theory Spec2Isabelle
  imports Complex_Main
begin

section \<open>JavaScript numbers\<close>

text \<open>
  The program computes with JavaScript numbers. A \<open>number\<close> is a finite value or one of
  the three special values of IEEE 754 arithmetic. The special values are modelled as the
  language defines them (division by zero, comparisons with NaN, \<open>Math.max\<close>,
  \<open>Math.round\<close>, \<open>Math.sqrt\<close>). The operations \<open>js_add\<close> to \<open>js_div\<close> and
  \<open>Math_sqrt\<close> give the exact result on finite values; the binary64 operations further
  down round it. The eye-openness estimator, whose inputs are arbitrary coordinates,
  computes with the binary64 operations. The scorer computes with the exact ones: its
  numbers are differences of integer clock readings, a percentage and a score, and the
  rounding of these is outside the model. Negative zero is not distinguished from zero:
  every divisor of the program is a difference of clock readings or a product with a
  square root, where a zero is the positive zero.
\<close>

datatype number = Fin real | PInf | NInf | NaN

fun js_neg :: "number \<Rightarrow> number" where
  "js_neg (Fin a) = Fin (- a)"
| "js_neg PInf = NInf"
| "js_neg NInf = PInf"
| "js_neg NaN = NaN"

fun js_add :: "number \<Rightarrow> number \<Rightarrow> number" where
  "js_add NaN b = NaN"
| "js_add a NaN = NaN"
| "js_add (Fin a) (Fin b) = Fin (a + b)"
| "js_add PInf NInf = NaN"
| "js_add NInf PInf = NaN"
| "js_add PInf b = PInf"
| "js_add a PInf = PInf"
| "js_add NInf b = NInf"
| "js_add a NInf = NInf"

definition js_sub :: "number \<Rightarrow> number \<Rightarrow> number" where
  "js_sub a b = js_add a (js_neg b)"

fun js_mul :: "number \<Rightarrow> number \<Rightarrow> number" where
  "js_mul NaN b = NaN"
| "js_mul a NaN = NaN"
| "js_mul (Fin a) (Fin b) = Fin (a * b)"
| "js_mul (Fin a) PInf = (if a = 0 then NaN else if 0 < a then PInf else NInf)"
| "js_mul (Fin a) NInf = (if a = 0 then NaN else if 0 < a then NInf else PInf)"
| "js_mul PInf (Fin b) = (if b = 0 then NaN else if 0 < b then PInf else NInf)"
| "js_mul NInf (Fin b) = (if b = 0 then NaN else if 0 < b then NInf else PInf)"
| "js_mul PInf PInf = PInf"
| "js_mul PInf NInf = NInf"
| "js_mul NInf PInf = NInf"
| "js_mul NInf NInf = PInf"

fun js_div :: "number \<Rightarrow> number \<Rightarrow> number" where
  "js_div NaN b = NaN"
| "js_div a NaN = NaN"
| "js_div (Fin a) (Fin b) =
     (if b = 0 then (if a = 0 then NaN else if 0 < a then PInf else NInf)
      else Fin (a / b))"
| "js_div (Fin a) PInf = Fin 0"
| "js_div (Fin a) NInf = Fin 0"
| "js_div PInf (Fin b) = (if 0 \<le> b then PInf else NInf)"
| "js_div NInf (Fin b) = (if 0 \<le> b then NInf else PInf)"
| "js_div a b = NaN"

fun js_lt :: "number \<Rightarrow> number \<Rightarrow> bool" where
  "js_lt NaN b = False"
| "js_lt a NaN = False"
| "js_lt (Fin a) (Fin b) = (a < b)"
| "js_lt a NInf = False"
| "js_lt PInf b = False"
| "js_lt a PInf = True"
| "js_lt NInf b = True"

fun js_ge :: "number \<Rightarrow> number \<Rightarrow> bool" where
  "js_ge NaN b = False"
| "js_ge a NaN = False"
| "js_ge a b = (\<not> js_lt a b)"

fun Math_max :: "number \<Rightarrow> number \<Rightarrow> number" where
  "Math_max NaN b = NaN"
| "Math_max a NaN = NaN"
| "Math_max a b = (if js_lt a b then b else a)"

fun Math_sqrt :: "number \<Rightarrow> number" where
  "Math_sqrt (Fin a) = (if 0 \<le> a then Fin (sqrt a) else NaN)"
| "Math_sqrt PInf = PInf"
| "Math_sqrt NInf = NaN"
| "Math_sqrt NaN = NaN"

text \<open>\<open>Math.round\<close> rounds to the nearest integer, a half towards plus infinity.\<close>

fun Math_round :: "number \<Rightarrow> number" where
  "Math_round (Fin a) = Fin (of_int \<lfloor>a + 1 / 2\<rfloor>)"
| "Math_round PInf = PInf"
| "Math_round NInf = NInf"
| "Math_round NaN = NaN"

fun is_finite :: "number \<Rightarrow> bool" where
  "is_finite (Fin a) = True"
| "is_finite PInf = False"
| "is_finite NInf = False"
| "is_finite NaN = False"

text \<open>The values that are not below zero: NaN is one of them, minus infinity is not.\<close>

fun not_negative :: "number \<Rightarrow> bool" where
  "not_negative (Fin a) = (0 \<le> a)"
| "not_negative PInf = True"
| "not_negative NInf = False"
| "not_negative NaN = True"

text \<open>An integer between two bounds, as a property of a \<open>number\<close>.\<close>

fun is_integer_in :: "int \<Rightarrow> int \<Rightarrow> number \<Rightarrow> bool" where
  "is_integer_in lo hi (Fin a) = (of_int \<lfloor>a\<rfloor> = a \<and> lo \<le> \<lfloor>a\<rfloor> \<and> \<lfloor>a\<rfloor> \<le> hi)"
| "is_integer_in lo hi PInf = False"
| "is_integer_in lo hi NInf = False"
| "is_integer_in lo hi NaN = False"

section \<open>Binary64 rounding\<close>

text \<open>
  A finite binary64 number is \<open>m * 2 ^ e\<close> with an integer \<open>m\<close> of magnitude below
  \<open>2 ^ 53\<close> and \<open>- 1074 \<le> e \<le> 971\<close>. An operation of IEEE 754 gives the exact result
  rounded to the nearest such number, a tie to the one with the even \<open>m\<close>, and an infinity
  when the rounded magnitude reaches \<open>2 ^ 1024\<close>. \<open>b64_exponent x\<close> is the exponent of the
  grid around \<open>x\<close>: 52 below the exponent of \<open>x\<close>, and not below the subnormal grid.
  \<open>Math.sqrt\<close> is taken as the correctly rounded square root of IEEE 754.
\<close>

definition round_half_even :: "real \<Rightarrow> int" where
  "round_half_even q =
     (let f = \<lfloor>q\<rfloor>; r = q - of_int f
      in if r < 1 / 2 then f else if 1 / 2 < r then f + 1 else if even f then f else f + 1)"

definition b64_exponent :: "real \<Rightarrow> int" where
  "b64_exponent x = max (- 1074) (\<lfloor>log 2 \<bar>x\<bar>\<rfloor> - 52)"

definition fl :: "real \<Rightarrow> number" where
  "fl x =
     (if x = 0 then Fin 0
      else let e = b64_exponent x;
               y = of_int (round_half_even (x / 2 powi e)) * 2 powi e
           in if 2 ^ 1024 \<le> \<bar>y\<bar> then (if 0 < x then PInf else NInf) else Fin y)"

definition rounded :: "number \<Rightarrow> number" where
  "rounded a = (case a of Fin r \<Rightarrow> fl r | PInf \<Rightarrow> PInf | NInf \<Rightarrow> NInf | NaN \<Rightarrow> NaN)"

definition b64_add :: "number \<Rightarrow> number \<Rightarrow> number" where
  "b64_add a b = rounded (js_add a b)"

definition b64_sub :: "number \<Rightarrow> number \<Rightarrow> number" where
  "b64_sub a b = rounded (js_sub a b)"

definition b64_mul :: "number \<Rightarrow> number \<Rightarrow> number" where
  "b64_mul a b = rounded (js_mul a b)"

definition b64_div :: "number \<Rightarrow> number \<Rightarrow> number" where
  "b64_div a b = rounded (js_div a b)"

definition b64_sqrt :: "number \<Rightarrow> number" where
  "b64_sqrt a = rounded (Math_sqrt a)"

text \<open>The reals that are binary64 numbers: rounding leaves them as they are.\<close>

definition b64_exact :: "real \<Rightarrow> bool" where
  "b64_exact r = (fl r = Fin r)"

section \<open>fatigue-detector.ts\<close>

text \<open>
  A keypoint of the face mesh. The program reads its \<open>x\<close> and \<open>y\<close> only; the fields are
  named \<open>kp_x\<close> and \<open>kp_y\<close> here. \<open>FatigueScore.details\<close> is the string
  \<open>PERCLOS n%\<close>; the record holds the number \<open>n\<close> that the string prints.
\<close>

record Keypoint =
  kp_x :: number
  kp_y :: number

datatype level = Normal | MildFatigue | Fatigue

record FatigueScore =
  score :: number
  level :: level
  details :: number

record EyeIndices =
  idx_p1 :: nat
  idx_p2 :: nat
  idx_p3 :: nat
  idx_p4 :: nat
  idx_p5 :: nat
  idx_p6 :: nat

definition EYE_LANDMARKS_LEFT :: EyeIndices where
  "EYE_LANDMARKS_LEFT =
     \<lparr>idx_p1 = 33, idx_p2 = 160, idx_p3 = 158, idx_p4 = 133, idx_p5 = 153, idx_p6 = 144\<rparr>"

definition EYE_LANDMARKS_RIGHT :: EyeIndices where
  "EYE_LANDMARKS_RIGHT =
     \<lparr>idx_p1 = 362, idx_p2 = 385, idx_p3 = 387, idx_p4 = 263, idx_p5 = 373, idx_p6 = 380\<rparr>"

text \<open>
  Reading an array out of range gives \<open>undefined\<close> (here \<open>None\<close>), and reading a field
  of \<open>undefined\<close> throws a TypeError.
\<close>

datatype error = TypeError

definition at_index :: "Keypoint list \<Rightarrow> nat \<Rightarrow> Keypoint option" where
  "at_index keypoints i = (if i < length keypoints then Some (keypoints ! i) else None)"

fun distance :: "Keypoint option \<Rightarrow> Keypoint option \<Rightarrow> error + number" where
  "distance (Some a) (Some b) =
     (let dx = b64_sub (kp_x a) (kp_x b);
          dy = b64_sub (kp_y a) (kp_y b)
      in Inr (b64_sqrt (b64_add (b64_mul dx dx) (b64_mul dy dy))))"
| "distance a b = Inl TypeError"

definition calculateEAR :: "Keypoint list \<Rightarrow> EyeIndices \<Rightarrow> error + number" where
  "calculateEAR keypoints indices =
     (let p1 = at_index keypoints (idx_p1 indices);
          p2 = at_index keypoints (idx_p2 indices);
          p3 = at_index keypoints (idx_p3 indices);
          p4 = at_index keypoints (idx_p4 indices);
          p5 = at_index keypoints (idx_p5 indices);
          p6 = at_index keypoints (idx_p6 indices)
      in case distance p2 p6 of Inl e \<Rightarrow> Inl e | Inr vertical1 \<Rightarrow>
         (case distance p3 p5 of Inl e \<Rightarrow> Inl e | Inr vertical2 \<Rightarrow>
         (case distance p1 p4 of Inl e \<Rightarrow> Inl e | Inr horizontal \<Rightarrow>
            Inr (b64_div (b64_add vertical1 vertical2) (b64_mul (Fin 2) horizontal)))))"

definition avgEAR :: "Keypoint list \<Rightarrow> error + number" where
  \<comment> \<open>the first lines of \<open>update\<close>: the mean of the two eyes' ratios\<close>
  "avgEAR keypoints =
     (case calculateEAR keypoints EYE_LANDMARKS_LEFT of Inl e \<Rightarrow> Inl e | Inr leftEAR \<Rightarrow>
      (case calculateEAR keypoints EYE_LANDMARKS_RIGHT of Inl e \<Rightarrow> Inl e | Inr rightEAR \<Rightarrow>
         Inr (b64_div (b64_add leftEAR rightEAR) (Fin 2))))"

section \<open>perclos-detector.ts\<close>

text \<open>
  \<open>Date.now()\<close> is an integer number of milliseconds. Every call of it in the source is
  a parameter of the model, so that a method that reads the clock twice takes two
  readings; the specification's \<open>update(ratio, now)\<close> and \<open>getScore(now)\<close> are the
  instances where both readings are the same \<open>now\<close>. Writing to the console is left out.
\<close>

record EARRecord =
  timestamp :: int
  ear :: number

record PERCLOSDetector =
  earHistory :: "EARRecord list"
  startTime :: int
  lastUpdateTime :: int

definition WINDOW_MS :: int where
  "WINDOW_MS = 60000"

text \<open>
  The threshold is the literal \<open>0.2\<close>, here the real \<open>1 / 5\<close>. The binary64 number the
  literal denotes is the next one above \<open>1 / 5\<close>, so a binary64 ratio is below the one
  exactly when it is below the other (lemma \<open>threshold_literal\<close>).
\<close>

definition EAR_THRESHOLD :: number where
  "EAR_THRESHOLD = Fin 0.2"

definition NORMAL_PERCLOS :: number where
  "NORMAL_PERCLOS = Fin 15"

definition FATIGUE_PERCLOS :: number where
  "FATIGUE_PERCLOS = Fin 20"

definition new_PERCLOSDetector :: "int \<Rightarrow> int \<Rightarrow> PERCLOSDetector" where
  "new_PERCLOSDetector t0 t0' = \<lparr>earHistory = [], startTime = t0, lastUpdateTime = t0'\<rparr>"

definition cleanOldData :: "int \<Rightarrow> PERCLOSDetector \<Rightarrow> PERCLOSDetector" where
  "cleanOldData now d =
     (let cutoff = now - WINDOW_MS * 2
      in d\<lparr>earHistory := filter (\<lambda>r. timestamp r > cutoff) (earHistory d)\<rparr>)"

definition getRecentEARs :: "int \<Rightarrow> PERCLOSDetector \<Rightarrow> EARRecord list" where
  "getRecentEARs now d =
     (let cutoff = now - WINDOW_MS
      in filter (\<lambda>r. timestamp r > cutoff) (earHistory d))"

definition update ::
  "Keypoint list \<Rightarrow> int \<Rightarrow> int \<Rightarrow> PERCLOSDetector \<Rightarrow> error + PERCLOSDetector" where
  \<comment> \<open>\<open>now\<close> is the reading of \<open>update\<close>, \<open>now'\<close> the later one of \<open>cleanOldData\<close>\<close>
  "update keypoints now now' d =
     (case avgEAR keypoints of Inl e \<Rightarrow> Inl e | Inr a \<Rightarrow>
        Inr (cleanOldData now'
          (d\<lparr>earHistory := earHistory d @ [\<lparr>timestamp = now, ear = a\<rparr>],
             lastUpdateTime := now\<rparr>)))"

definition frameDuration :: "EARRecord list \<Rightarrow> nat \<Rightarrow> int" where
  \<comment> \<open>the body of the loop that sets \<open>frameDuration\<close>, for an index inside the array\<close>
  "frameDuration earRecords i =
     (if int i < int (length earRecords) - 1
      then timestamp (earRecords ! (i + 1)) - timestamp (earRecords ! i)
      else if 0 < i
      then timestamp (earRecords ! i) - timestamp (earRecords ! (i - 1))
      else 33)"

function closedTimeLoop :: "EARRecord list \<Rightarrow> nat \<Rightarrow> int \<Rightarrow> int" where
  "closedTimeLoop earRecords i closedTimeMs =
     (if i < length earRecords
      then closedTimeLoop earRecords (i + 1)
             (if js_lt (ear (earRecords ! i)) EAR_THRESHOLD
              then closedTimeMs + frameDuration earRecords i
              else closedTimeMs)
      else closedTimeMs)"
  by pat_completeness auto
termination
  by (relation "measure (\<lambda>(earRecords, i, closedTimeMs). length earRecords - i)") auto

declare closedTimeLoop.simps [simp del]

text \<open>What the pass of the loop at index \<open>i\<close> adds to \<open>closedTimeMs\<close>.\<close>

definition closedContribution :: "EARRecord list \<Rightarrow> nat \<Rightarrow> int" where
  "closedContribution earRecords i =
     (if js_lt (ear (earRecords ! i)) EAR_THRESHOLD then frameDuration earRecords i else 0)"

definition calculateClosurePercentage :: "EARRecord list \<Rightarrow> int \<Rightarrow> number" where
  "calculateClosurePercentage earRecords windowMs =
     (if length earRecords = 0 then Fin 0
      else let closedTimeMs = closedTimeLoop earRecords 0 0
           in js_mul (js_div (Fin (of_int closedTimeMs)) (Fin (of_int windowMs))) (Fin 100))"

definition calculatePERCLOS :: "int \<Rightarrow> int \<Rightarrow> PERCLOSDetector \<Rightarrow> number" where
  \<comment> \<open>\<open>now\<close> is the reading of \<open>getRecentEARs\<close>, \<open>now'\<close> the later one of this method\<close>
  "calculatePERCLOS now now' d =
     (let recentEARs = getRecentEARs now d
      in if length recentEARs = 0 then Fin 0
         else let elapsedMs = now' - startTime d;
                  actualWindowMs = min elapsedMs WINDOW_MS
              in if actualWindowMs < 30000
                 then calculateClosurePercentage recentEARs actualWindowMs
                 else calculateClosurePercentage recentEARs actualWindowMs)"

text \<open>The three score formulas of \<open>getScore\<close>, in the order of its branches.\<close>

definition fatigue_formula :: "number \<Rightarrow> number" where
  "fatigue_formula perclos =
     Math_max (Fin 0) (js_sub (Fin 100) (js_mul (js_sub perclos FATIGUE_PERCLOS) (Fin 4)))"

definition mild_formula :: "number \<Rightarrow> number" where
  "mild_formula perclos = js_sub (Fin 100) (js_mul (js_sub perclos NORMAL_PERCLOS) (Fin 4))"

definition normal_formula :: "number \<Rightarrow> number" where
  "normal_formula perclos = js_sub (Fin 100) (js_mul perclos (js_div (Fin 20) (Fin 15)))"

definition scoreOfPERCLOS :: "number \<Rightarrow> FatigueScore" where
  \<comment> \<open>\<open>getScore\<close> after its first line\<close>
  "scoreOfPERCLOS perclos =
     (let (s, l) =
        (if js_ge perclos FATIGUE_PERCLOS then (fatigue_formula perclos, Fatigue)
         else if js_ge perclos NORMAL_PERCLOS then (mild_formula perclos, MildFatigue)
         else (normal_formula perclos, Normal))
      in \<lparr>score = Math_round s, level = l,
          details = js_div (Math_round (js_mul perclos (Fin 10))) (Fin 10)\<rparr>)"

definition getScore :: "int \<Rightarrow> int \<Rightarrow> PERCLOSDetector \<Rightarrow> FatigueScore" where
  "getScore now now' d = scoreOfPERCLOS (calculatePERCLOS now now' d)"

text \<open>
  The states a detector can be in: made by the constructor, then changed by calls of
  \<open>update\<close> that return, each at a clock reading not before the last one recorded.
\<close>

inductive reachable :: "PERCLOSDetector \<Rightarrow> bool" where
  reachable_new: "t0 \<le> t0' \<Longrightarrow> reachable (new_PERCLOSDetector t0 t0')"
| reachable_update:
    "reachable d \<Longrightarrow> lastUpdateTime d \<le> now \<Longrightarrow> now \<le> now' \<Longrightarrow>
     update keypoints now now' d = Inr d' \<Longrightarrow> reachable d'"

section \<open>The specification's wording of the closed time\<close>

text \<open>
  The frame durations as the specification describes them, by recursion on the list of
  timestamps: the difference to the next sample; for the last sample the difference to the
  one before it, and 33 when it is the only one.
\<close>

fun spec_frameDurations :: "int list \<Rightarrow> int list" where
  "spec_frameDurations [] = []"
| "spec_frameDurations [t] = [33]"
| "spec_frameDurations [s, t] = [t - s, t - s]"
| "spec_frameDurations (s # t # ts) = (t - s) # spec_frameDurations (t # ts)"

definition spec_closedTimeMs :: "EARRecord list \<Rightarrow> int" where
  "spec_closedTimeMs rs =
     sum_list (map (\<lambda>(r, du). if js_lt (ear r) EAR_THRESHOLD then du else 0)
                (zip rs (spec_frameDurations (map timestamp rs))))"

section \<open>A face to test with\<close>

text \<open>
  A mesh of 478 keypoints whose two eyes are \<open>h\<close> wide and \<open>v\<close> high at both pairs of
  lid landmarks: the Euclidean ratio of each eye is \<open>v / h\<close> for \<open>v \<ge> 0\<close> and \<open>h > 0\<close>.
  \<open>huge\<close> is a binary64 number whose square is beyond the binary64 range.
\<close>

definition kp :: "real \<Rightarrow> real \<Rightarrow> Keypoint" where
  "kp a b = \<lparr>kp_x = Fin a, kp_y = Fin b\<rparr>"

definition face :: "real \<Rightarrow> real \<Rightarrow> Keypoint list" where
  "face h v = (replicate 478 (kp 0 0))
     [33 := kp 0 0, 133 := kp h 0, 160 := kp 3 v, 144 := kp 3 0,
      158 := kp 7 v, 153 := kp 7 0,
      362 := kp 50 0, 263 := kp (50 + h) 0, 385 := kp 53 v, 380 := kp 53 0,
      387 := kp 57 v, 373 := kp 57 0]"

definition huge :: real where
  "huge = 2 ^ 600"


section \<open>Evaluation lemmas\<close>

lemmas face_defs = avgEAR_def calculateEAR_def EYE_LANDMARKS_LEFT_def EYE_LANDMARKS_RIGHT_def
  at_index_def face_def kp_def js_sub_def Let_def

lemmas score_defs = scoreOfPERCLOS_def fatigue_formula_def mild_formula_def normal_formula_def
  FATIGUE_PERCLOS_def NORMAL_PERCLOS_def js_sub_def

lemmas perclos_defs = getScore_def calculatePERCLOS_def calculateClosurePercentage_def
  getRecentEARs_def WINDOW_MS_def EAR_THRESHOLD_def frameDuration_def Let_def
  closedTimeLoop.simps

subsection \<open>Rounding\<close>

lemma floor_log2_eq:
  assumes "2 powi k \<le> x" "x < 2 powi (k + 1)"
  shows "\<lfloor>log 2 x\<rfloor> = k"
proof -
  have "0 < (2::real) powi k" by simp
  then have x: "0 < x" using assms(1) by linarith
  have a: "2 powr real_of_int k = (2::real) powi k"
    by (rule powr_real_of_int') simp_all
  have b: "2 powr real_of_int (k + 1) = (2::real) powi (k + 1)"
    by (rule powr_real_of_int') simp_all
  have "2 powr real_of_int k \<le> x \<and> x < 2 powr real_of_int (k + 1)"
    unfolding a b using assms by simp
  then show ?thesis
    using x floor_log_eq_powr_iff [of x 2 k] by simp
qed

lemma round_half_even_of_int: "round_half_even (of_int k) = k"
  by (simp add: round_half_even_def)

lemma round_half_even_nonneg: "0 \<le> q \<Longrightarrow> 0 \<le> round_half_even q"
  by (auto simp: round_half_even_def Let_def)

lemma round_half_even_ge:
  assumes "of_int k \<le> q"
  shows "k \<le> round_half_even q"
proof -
  have "k \<le> \<lfloor>q\<rfloor>" using assms by (simp add: le_floor_iff)
  then show ?thesis by (auto simp: round_half_even_def Let_def)
qed

lemma b64_exponent_le:
  assumes "x = of_int m * 2 powi e" "m \<noteq> 0" "\<bar>m\<bar> < 2 ^ 53" "- 1074 \<le> e"
  shows "b64_exponent x \<le> e"
proof -
  have ax: "\<bar>x\<bar> = of_int \<bar>m\<bar> * 2 powi e"
    using assms(1) by (simp add: abs_mult)
  have pos: "0 < \<bar>x\<bar>" using assms(1,2) by simp
  have "of_int \<bar>m\<bar> < (2::real) ^ 53"
    using assms(3) by (metis of_int_less_iff of_int_numeral of_int_power)
  then have "\<bar>x\<bar> < 2 ^ 53 * 2 powi e"
    unfolding ax by (simp add: mult_strict_right_mono)
  also have "\<dots> = 2 powi (e + 53)"
    by (simp add: power_int_add)
  also have "\<dots> = 2 powr real_of_int (e + 53)"
    by (rule powr_real_of_int' [symmetric]) simp_all
  finally have "\<bar>x\<bar> < 2 powr real_of_int (e + 53)" .
  then have "log 2 \<bar>x\<bar> < real_of_int (e + 53)"
    using pos by (simp add: log_less_iff)
  then have "\<lfloor>log 2 \<bar>x\<bar>\<rfloor> < e + 53"
    by (simp add: floor_less_iff)
  then show ?thesis
    using assms(4) by (simp add: b64_exponent_def)
qed

lemma fl_exact:
  assumes "x = of_int m * 2 powi e" "\<bar>m\<bar> < 2 ^ 53" "- 1074 \<le> e" "e \<le> 971"
  shows "fl x = Fin x"
proof (cases "m = 0")
  case True
  then show ?thesis using assms(1) by (simp add: fl_def)
next
  case False
  define e' where "e' = b64_exponent x"
  have le: "e' \<le> e"
    unfolding e'_def using assms(1) False assms(2,3) by (rule b64_exponent_le)
  have x0: "x \<noteq> 0" using assms(1) False by simp
  have "x / 2 powi e' = of_int m * 2 powi (e - e')"
    unfolding assms(1) by (simp add: power_int_diff)
  also have "\<dots> = of_int m * 2 ^ nat (e - e')"
    using le by (simp add: power_int_nonneg_exp)
  also have "\<dots> = of_int (m * 2 ^ nat (e - e'))"
    by simp
  finally have q: "x / 2 powi e' = of_int (m * 2 ^ nat (e - e'))" .
  have "round_half_even (x / 2 powi e') = m * 2 ^ nat (e - e')"
    by (simp only: q round_half_even_of_int)
  then have "of_int (round_half_even (x / 2 powi e')) * 2 powi e' = (x / 2 powi e') * 2 powi e'"
    by (simp only: q)
  then have y: "of_int (round_half_even (x / 2 powi e')) * 2 powi e' = x"
    by simp
  have "of_int \<bar>m\<bar> < (2::real) ^ 53"
    using assms(2) by (metis of_int_less_iff of_int_numeral of_int_power)
  moreover have "(2::real) powi e \<le> 2 powi 971"
    using assms(4) by (intro power_int_increasing) simp_all
  ultimately have "of_int \<bar>m\<bar> * (2::real) powi e < 2 ^ 53 * 2 powi 971"
    by (intro mult_less_le_imp_less) simp_all
  also have "\<dots> = 2 ^ 1024"
    by (simp add: power_int_def)
  finally have "\<bar>x\<bar> < 2 ^ 1024"
    unfolding assms(1) by (simp add: abs_mult)
  then show ?thesis
    using x0 y by (simp add: fl_def Let_def e'_def)
qed

lemma fl_of_int: "\<bar>m\<bar> < 2 ^ 53 \<Longrightarrow> fl (of_int m) = Fin (of_int m)"
  by (rule fl_exact [where m = m and e = 0]) simp_all

lemma fl_numeral [simp]:
  "numeral k < (2::int) ^ 53 \<Longrightarrow> fl (numeral k) = Fin (numeral k)"
  using fl_of_int [of "numeral k"] by simp

lemma fl_neg_numeral [simp]:
  "numeral k < (2::int) ^ 53 \<Longrightarrow> fl (- numeral k) = Fin (- numeral k)"
  using fl_of_int [of "- numeral k"] by simp

lemma fl_0 [simp]: "fl 0 = Fin 0"
  by (simp add: fl_def)

lemma fl_1 [simp]: "fl 1 = Fin 1"
  using fl_of_int [of 1] by simp

lemma fl_nonneg: "0 \<le> x \<Longrightarrow> not_negative (fl x)"
proof (cases "x = 0")
  case True
  then show ?thesis by simp
next
  case False
  assume "0 \<le> x"
  then have "0 \<le> x / 2 powi b64_exponent x" by simp
  then have "0 \<le> round_half_even (x / 2 powi b64_exponent x)"
    by (rule round_half_even_nonneg)
  then have "0 \<le> real_of_int (round_half_even (x / 2 powi b64_exponent x)) * 2 powi b64_exponent x"
    by simp
  then show ?thesis
    using False \<open>0 \<le> x\<close> by (simp add: fl_def Let_def)
qed

lemma fl_overflow:
  assumes "2 ^ 1024 \<le> x"
  shows "fl x = PInf"
proof -
  have x: "0 < x" "x \<noteq> 0" "\<bar>x\<bar> = x"
    using assms by (smt (verit) zero_less_power)+
  define L where "L = \<lfloor>log 2 x\<rfloor>"
  have "(2::real) powr real_of_int 1024 \<le> x"
    using assms by (simp add: powr_real_of_int')
  then have "real_of_int 1024 \<le> log 2 x"
    using x(1) by (simp add: le_log_iff)
  then have L: "1024 \<le> L"
    unfolding L_def by (simp add: le_floor_iff)
  then have e: "b64_exponent x = L - 52"
    unfolding b64_exponent_def x(3) L_def [symmetric] by simp
  have "2 powr real_of_int L \<le> x"
    using x(1) floor_log_eq_powr_iff [of x 2 L] by (simp add: L_def)
  then have lo: "2 powi L \<le> x"
    by (simp add: powr_real_of_int')
  have "x / 2 powi (L - 52) \<ge> 2 powi L / 2 powi (L - 52)"
    using lo by (simp add: divide_right_mono)
  also have "2 powi L / 2 powi (L - 52) = (2::real) powi 52"
    by (simp add: power_int_diff)
  finally have "of_int (2 ^ 52) \<le> x / 2 powi (L - 52)"
    by (simp add: power_int_def)
  then have m: "2 ^ 52 \<le> round_half_even (x / 2 powi (L - 52))"
    by (rule round_half_even_ge)
  have "(2::real) ^ 1024 = 2 ^ 52 * 2 powi 972"
    by (simp add: power_int_def)
  also have "\<dots> \<le> real_of_int (round_half_even (x / 2 powi (L - 52))) * 2 powi (L - 52)"
  proof (intro mult_mono)
    show "(2::real) ^ 52 \<le> real_of_int (round_half_even (x / 2 powi (L - 52)))"
      using m by (metis of_int_le_iff of_int_numeral of_int_power)
    show "(2::real) powi 972 \<le> 2 powi (L - 52)"
      using L by (intro power_int_increasing) simp_all
    show "0 \<le> real_of_int (round_half_even (x / 2 powi (L - 52)))"
      using m by simp
  qed simp_all
  finally have "2 ^ 1024 \<le> \<bar>real_of_int (round_half_even (x / 2 powi (L - 52))) * 2 powi (L - 52)\<bar>"
    by linarith
  then show ?thesis
    using x by (simp add: fl_def Let_def e)
qed

lemma fl_fifth: "fl (1 / 5) = Fin (3602879701896397 / 18014398509481984)"
proof -
  have "\<lfloor>log 2 (1 / 5 :: real)\<rfloor> = - 3"
    by (rule floor_log2_eq) (simp_all add: power_int_def power_divide)
  then have e: "b64_exponent (1 / 5) = - 55"
    by (simp add: b64_exponent_def)
  have q: "(1 / 5 :: real) / 2 powi (- 55) = 36028797018963968 / 5"
    by (simp add: power_int_def power_one_over)
  have f: "\<lfloor>36028797018963968 / 5 :: real\<rfloor> = 7205759403792793"
    by (simp add: floor_eq_iff)
  have r: "round_half_even (36028797018963968 / 5) = 7205759403792794"
    by (simp add: round_half_even_def f Let_def)
  have "real_of_int (round_half_even ((1 / 5) / 2 powi (- 55))) * 2 powi (- 55)
      = 7205759403792794 * 2 powi (- 55)"
    by (simp only: q r)
  also have "\<dots> = 3602879701896397 / 18014398509481984"
    by (simp add: power_int_def power_one_over)
  finally have y: "real_of_int (round_half_even ((1 / 5) / 2 powi b64_exponent (1 / 5)))
      * 2 powi b64_exponent (1 / 5) = 3602879701896397 / 18014398509481984"
    by (simp only: e)
  show ?thesis
    by (simp only: fl_def Let_def y) simp
qed

lemma fl_half [simp]: "fl (1 / 2) = Fin (1 / 2)"
  by (rule fl_exact [where m = 1 and e = "- 1"]) (simp_all add: power_int_def)

lemma fl_quarter [simp]: "fl (1 / 4) = Fin (1 / 4)"
  by (rule fl_exact [where m = 1 and e = "- 2"]) (simp_all add: power_int_def power_one_over)

lemma fl_eighth [simp]: "fl (1 / 8) = Fin (1 / 8)"
  by (rule fl_exact [where m = 1 and e = "- 3"]) (simp_all add: power_int_def power_one_over)

lemma fl_huge [simp]: "fl huge = Fin huge" "fl (- huge) = Fin (- huge)"
  by (rule fl_exact [where m = 1 and e = 600], simp_all add: huge_def power_int_def)
     (rule fl_exact [where m = "- 1" and e = 600], simp_all add: power_int_def)

lemma fl_huge_square [simp]: "fl (huge * huge) = PInf"
  by (rule fl_overflow) (simp add: huge_def)

lemma b64_exact_numeral [simp]:
  "numeral k < (2::int) ^ 53 \<Longrightarrow> b64_exact (numeral k)"
  "numeral k < (2::int) ^ 53 \<Longrightarrow> b64_exact (- numeral k)"
  "b64_exact 0" "b64_exact 1"
  by (simp_all add: b64_exact_def)

lemma sqrt_squares [simp]:
  "sqrt 4 = 2" "sqrt 9 = 3" "sqrt 16 = 4" "sqrt 64 = 8" "sqrt 100 = 10"
  by (rule real_sqrt_unique, simp, simp)+

subsection \<open>The threshold\<close>

text \<open>Comparing a binary64 number with \<open>1 / 5\<close> is comparing it with the literal \<open>0.2\<close>.\<close>

lemma threshold_literal:
  assumes "b64_exact d"
  shows "js_lt (Fin d) EAR_THRESHOLD = js_lt (Fin d) (fl (1 / 5))"
proof -
  let ?F = "3602879701896397 / 18014398509481984 :: real"
  have F: "1 / 5 < ?F" by simp
  have "\<not> (1 / 5 \<le> d \<and> d < ?F)"
  proof
    assume d: "1 / 5 \<le> d \<and> d < ?F"
    then have d0: "d \<noteq> 0" by auto
    have "\<lfloor>log 2 d\<rfloor> = - 3"
      using d by (intro floor_log2_eq) (simp_all add: power_int_def power_one_over)
    moreover have "\<bar>d\<bar> = d" using d by simp
    ultimately have e: "b64_exponent d = - 55"
      by (simp add: b64_exponent_def)
    define k where "k = round_half_even (d / 2 powi (- 55))"
    have "fl d = Fin d" using assms by (simp add: b64_exact_def)
    then have "real_of_int k * 2 powi (- 55) = d"
      using d0 by (simp add: fl_def e Let_def k_def split: if_splits)
    then have dk: "d = real_of_int k / 36028797018963968"
      by (simp add: power_int_def power_one_over)
    have "36028797018963968 / 5 \<le> real_of_int k" "real_of_int k < 7205759403792794"
      using d unfolding dk by simp_all
    then have "7205759403792793 < k" "k < 7205759403792794"
      by linarith+
    then show False by simp
  qed
  then have "d < 1 / 5 \<longleftrightarrow> d < ?F"
    using F by linarith
  then show ?thesis
    by (simp add: EAR_THRESHOLD_def fl_fifth)
qed

subsection \<open>The faces\<close>

lemmas b64_defs = b64_add_def b64_sub_def b64_mul_def b64_div_def b64_sqrt_def rounded_def

lemma avgEAR_face_open: "avgEAR (face 8 4) = Inr (Fin 0.5)"
  by (simp add: face_defs b64_defs)

lemma avgEAR_face_closed: "avgEAR (face 8 1) = Inr (Fin 0.125)"
  by (simp add: face_defs b64_defs)

lemma avgEAR_face_zero_width: "avgEAR (face 0 3) = Inr PInf"
  by (simp add: face_defs b64_defs)

lemma avgEAR_face_point: "avgEAR (face 0 0) = Inr NaN"
  by (simp add: face_defs b64_defs)

section \<open>The score mapping\<close>

text \<open>
  Claim C2 (the two branches that meet at a breakpoint give the same score: 80 at
  PERCLOS 15 and 60 at PERCLOS 20). The source's comments say the same (15 percent is
  score 80, 20 percent is score 60), but its formulas start each of the two upper branches
  at 100 again: at 15 the normal formula gives 80 and the mild-fatigue formula 100, at 20
  the mild-fatigue formula gives 80 and the fatigue formula 100. A detector made at time 0
  whose eye was closed for 200 ms of the first second has PERCLOS 20, level fatigue and
  score 100.
\<close>

theorem breakpoint_formulas_disagree:
  "normal_formula (Fin 15) = Fin 80 \<and> mild_formula (Fin 15) = Fin 100 \<and>
   mild_formula (Fin 20) = Fin 80 \<and> fatigue_formula (Fin 20) = Fin 100 \<and>
   scoreOfPERCLOS (Fin 15) = \<lparr>score = Fin 100, level = MildFatigue, details = Fin 15\<rparr> \<and>
   getScore 1000 1000
     \<lparr>earHistory = [\<lparr>timestamp = 0, ear = Fin 0.1\<rparr>, \<lparr>timestamp = 200, ear = Fin 0.3\<rparr>],
      startTime = 0, lastUpdateTime = 200\<rparr>
   = \<lparr>score = Fin 100, level = Fatigue, details = Fin 20\<rparr>"
  by (simp add: perclos_defs score_defs)

text \<open>
  Claim C9: the score is exactly 100 at PERCLOS 0, and exactly 0 at every PERCLOS from 45
  on, where the fatigue formula's maximum with 0 takes over; plus infinity included.
\<close>

theorem score_mapping_ends:
  "score (scoreOfPERCLOS (Fin 0)) = Fin 100 \<and>
   (\<forall>p. 45 \<le> p \<longrightarrow>
      fatigue_formula (Fin p) = Fin 0 \<and> score (scoreOfPERCLOS (Fin p)) = Fin 0 \<and>
      level (scoreOfPERCLOS (Fin p)) = Fatigue) \<and>
   score (scoreOfPERCLOS PInf) = Fin 0"
  by (simp add: score_defs)

theorem score_mapping_ends_witness:
  "fatigue_formula (Fin 45) = Fin 0 \<and> score (scoreOfPERCLOS (Fin 45)) = Fin 0 \<and>
   level (scoreOfPERCLOS (Fin 45)) = Fatigue"
proof -
  have "(45::real) \<le> 45" by simp
  with score_mapping_ends show ?thesis by blast
qed

section \<open>The PERCLOS computation\<close>

text \<open>
  Claim C10: the branch of \<open>calculatePERCLOS\<close> for a window under 30 000 ms computes what
  the other branch computes, so the method is \<open>calculateClosurePercentage\<close> of the recent
  samples and \<open>min (now - t0) W\<close>, whatever the elapsed time. (With no recent sample both
  sides are 0, so the equation needs no condition.)
\<close>

theorem under_30s_branch_is_vacuous:
  "calculatePERCLOS now now' d =
     calculateClosurePercentage (getRecentEARs now d) (min (now' - startTime d) WINDOW_MS)"
  by (simp add: calculatePERCLOS_def calculateClosurePercentage_def Let_def)

text \<open>
  Claim C6: at every query time, a detector with no recent sample has PERCLOS 0, score 100
  and level normal; a detector that was never updated is such a detector. \<open>getScore\<close>
  has no failing path: it returns a score for every state and every clock reading.
\<close>

theorem no_recent_samples_score:
  "(getRecentEARs now d = [] \<longrightarrow>
      calculatePERCLOS now now' d = Fin 0 \<and>
      getScore now now' d = \<lparr>score = Fin 100, level = Normal, details = Fin 0\<rparr>) \<and>
   getRecentEARs now (new_PERCLOSDetector t0 t0') = [] \<and>
   getScore now now' (new_PERCLOSDetector t0 t0')
     = \<lparr>score = Fin 100, level = Normal, details = Fin 0\<rparr>"
  by (simp add: getScore_def calculatePERCLOS_def getRecentEARs_def new_PERCLOSDetector_def
      score_defs)

theorem no_recent_samples_score_witness:
  "getRecentEARs 70000
     \<lparr>earHistory = [\<lparr>timestamp = 0, ear = Fin 0.1\<rparr>], startTime = 0, lastUpdateTime = 0\<rparr> = [] \<and>
   getScore 70000 70000
     \<lparr>earHistory = [\<lparr>timestamp = 0, ear = Fin 0.1\<rparr>], startTime = 0, lastUpdateTime = 0\<rparr>
     = \<lparr>score = Fin 100, level = Normal, details = Fin 0\<rparr>"
proof -
  have e: "getRecentEARs 70000
     \<lparr>earHistory = [\<lparr>timestamp = 0, ear = Fin 0.1\<rparr>], startTime = 0, lastUpdateTime = 0\<rparr> = []"
    by (simp add: getRecentEARs_def WINDOW_MS_def)
  from no_recent_samples_score [THEN conjunct1, rule_format, OF e] e show ?thesis by simp
qed

text \<open>
  Claim C1 (with an effective window of 0 the PERCLOS is 0, the score 100 and the level
  normal). The source divides by the window without a guard. For the detector made at
  time 0 that holds the one sample (0, 0.1), queried at 0, the closed time is 33 and the
  window 0: the PERCLOS is plus infinity, the score 0 and the level fatigue.
\<close>

theorem zero_window_not_guarded:
  "\<not> (calculatePERCLOS 0 0
        \<lparr>earHistory = [\<lparr>timestamp = 0, ear = Fin 0.1\<rparr>], startTime = 0, lastUpdateTime = 0\<rparr>
        = Fin 0 \<and>
      score (getScore 0 0
        \<lparr>earHistory = [\<lparr>timestamp = 0, ear = Fin 0.1\<rparr>], startTime = 0, lastUpdateTime = 0\<rparr>)
        = Fin 100 \<and>
      level (getScore 0 0
        \<lparr>earHistory = [\<lparr>timestamp = 0, ear = Fin 0.1\<rparr>], startTime = 0, lastUpdateTime = 0\<rparr>)
        = Normal)"
  by (simp add: perclos_defs score_defs)

text \<open>
  Claim C1 as amended: when the effective window is 0 (the query reads the clock value of
  the construction) and the recent samples have a positive closed time, the PERCLOS is
  plus infinity, the score 0 and the level fatigue.
\<close>

theorem zero_window_positive_closed_time:
  assumes "getRecentEARs now d \<noteq> []"
    and "now' = startTime d"
    and "0 < closedTimeLoop (getRecentEARs now d) 0 0"
  shows "calculatePERCLOS now now' d = PInf \<and>
         getScore now now' d = \<lparr>score = Fin 0, level = Fatigue, details = PInf\<rparr>"
proof -
  have "calculatePERCLOS now now' d = PInf"
    using assms by (simp add: calculatePERCLOS_def calculateClosurePercentage_def WINDOW_MS_def)
  then show ?thesis by (simp add: getScore_def score_defs)
qed

theorem zero_window_positive_closed_time_witness:
  "update (face 8 1) 0 0 (new_PERCLOSDetector 0 0)
     = Inr \<lparr>earHistory = [\<lparr>timestamp = 0, ear = Fin 0.125\<rparr>], startTime = 0, lastUpdateTime = 0\<rparr> \<and>
   closedTimeLoop (getRecentEARs 0
     \<lparr>earHistory = [\<lparr>timestamp = 0, ear = Fin 0.125\<rparr>], startTime = 0, lastUpdateTime = 0\<rparr>) 0 0
     = 33 \<and>
   calculatePERCLOS 0 0
     \<lparr>earHistory = [\<lparr>timestamp = 0, ear = Fin 0.125\<rparr>], startTime = 0, lastUpdateTime = 0\<rparr>
     = PInf \<and>
   getScore 0 0
     \<lparr>earHistory = [\<lparr>timestamp = 0, ear = Fin 0.125\<rparr>], startTime = 0, lastUpdateTime = 0\<rparr>
     = \<lparr>score = Fin 0, level = Fatigue, details = PInf\<rparr>"
proof -
  let ?d = "\<lparr>earHistory = [\<lparr>timestamp = 0, ear = Fin 0.125\<rparr>], startTime = 0,
             lastUpdateTime = 0\<rparr>"
  have u: "update (face 8 1) 0 0 (new_PERCLOSDetector 0 0) = Inr ?d"
    by (simp add: update_def avgEAR_face_closed new_PERCLOSDetector_def cleanOldData_def WINDOW_MS_def)
  have r: "getRecentEARs 0 ?d \<noteq> []"
    by (simp add: getRecentEARs_def WINDOW_MS_def)
  have s: "(0::int) = startTime ?d"
    by simp
  have c: "closedTimeLoop (getRecentEARs 0 ?d) 0 0 = 33"
    by (simp add: getRecentEARs_def WINDOW_MS_def EAR_THRESHOLD_def frameDuration_def
        closedTimeLoop.simps)
  then have p: "0 < closedTimeLoop (getRecentEARs 0 ?d) 0 0"
    by simp
  from zero_window_positive_closed_time [OF r s p] u c show ?thesis by simp
qed

section \<open>Retention of the history\<close>

text \<open>
  Claim C5: after a call of \<open>update\<close> that reads the clock value \<open>now'\<close> when it prunes,
  the history is the old history and the new sample, in order, without the samples whose
  timestamp is at most \<open>now' - 2W\<close>, with \<open>W\<close> = 60 000 ms: none of those is kept and
  every other one is. The samples used for a score at the clock value \<open>q\<close> are the kept
  ones with a timestamp above \<open>q - W\<close>.
\<close>

theorem update_prunes_history:
  assumes "update keypoints now now' d = Inr d'"
  shows "(\<exists>a. avgEAR keypoints = Inr a \<and>
            earHistory d' = filter (\<lambda>r. timestamp r > now' - 120000)
                              (earHistory d @ [\<lparr>timestamp = now, ear = a\<rparr>]) \<and>
            (\<forall>r \<in> set (earHistory d @ [\<lparr>timestamp = now, ear = a\<rparr>]).
               timestamp r > now' - 2 * 60000 \<longrightarrow> r \<in> set (earHistory d'))) \<and>
         (\<forall>r \<in> set (earHistory d'). \<not> timestamp r \<le> now' - 2 * 60000) \<and>
         getRecentEARs q d' = filter (\<lambda>r. timestamp r > q - 60000) (earHistory d')"
  using assms
  by (auto simp: update_def cleanOldData_def getRecentEARs_def WINDOW_MS_def Let_def
      split: sum.splits if_splits)

theorem update_prunes_history_witness:
  "update (face 8 4) 200000 200000
     \<lparr>earHistory = [\<lparr>timestamp = 80000, ear = Fin 0.3\<rparr>, \<lparr>timestamp = 80001, ear = Fin 0.1\<rparr>],
      startTime = 0, lastUpdateTime = 80001\<rparr>
   = Inr \<lparr>earHistory = [\<lparr>timestamp = 80001, ear = Fin 0.1\<rparr>,
                         \<lparr>timestamp = 200000, ear = Fin 0.5\<rparr>],
          startTime = 0, lastUpdateTime = 200000\<rparr> \<and>
   getRecentEARs 200000
     \<lparr>earHistory = [\<lparr>timestamp = 80001, ear = Fin 0.1\<rparr>, \<lparr>timestamp = 200000, ear = Fin 0.5\<rparr>],
      startTime = 0, lastUpdateTime = 200000\<rparr>
   = [\<lparr>timestamp = 200000, ear = Fin 0.5\<rparr>]"
proof -
  have u: "update (face 8 4) 200000 200000
     \<lparr>earHistory = [\<lparr>timestamp = 80000, ear = Fin 0.3\<rparr>, \<lparr>timestamp = 80001, ear = Fin 0.1\<rparr>],
      startTime = 0, lastUpdateTime = 80001\<rparr>
   = Inr \<lparr>earHistory = [\<lparr>timestamp = 80001, ear = Fin 0.1\<rparr>,
                         \<lparr>timestamp = 200000, ear = Fin 0.5\<rparr>],
          startTime = 0, lastUpdateTime = 200000\<rparr>"
    by (simp add: update_def avgEAR_face_open cleanOldData_def WINDOW_MS_def)
  from update_prunes_history [OF u, of 200000] u show ?thesis by simp
qed

section \<open>The closed time\<close>

lemma closedTimeLoop_sum:
  "closedTimeLoop rs i acc = acc + (\<Sum>k = i..<length rs. closedContribution rs k)"
proof (induction rs i acc rule: closedTimeLoop.induct)
  case (1 rs i acc)
  show ?case
  proof (cases "i < length rs")
    case True
    with 1 show ?thesis
      by (subst closedTimeLoop.simps) (simp add: closedContribution_def sum.atLeast_Suc_lessThan)
  next
    case False
    then show ?thesis by (subst closedTimeLoop.simps) simp
  qed
qed

lemma frameDuration_shift:
  "i < length (b # c # rest) \<Longrightarrow>
   frameDuration (a # b # c # rest) (Suc i) = frameDuration (b # c # rest) i"
  by (cases i) (auto simp: frameDuration_def)

lemma frameDurations_spec:
  "map (frameDuration rs) [0..<length rs] = spec_frameDurations (map timestamp rs)"
proof (induction rs rule: induct_list012)
  case 1
  show ?case by simp
next
  case (2 x)
  show ?case by (simp add: frameDuration_def)
next
  case (3 x y zs)
  show ?case
  proof (cases zs)
    case Nil
    then show ?thesis by (simp add: frameDuration_def upt_rec)
  next
    case (Cons z zs')
    have shift: "map (\<lambda>i. frameDuration (x # y # zs) (Suc i)) [0..<length (y # zs)]
        = map (frameDuration (y # zs)) [0..<length (y # zs)]"
    proof (intro map_cong refl)
      fix i assume "i \<in> set [0..<length (y # zs)]"
      then have "i < length (y # z # zs')" using Cons by auto
      then show "frameDuration (x # y # zs) (Suc i) = frameDuration (y # zs) i"
        unfolding Cons by (rule frameDuration_shift)
    qed
    have first: "frameDuration (x # y # zs) 0 = timestamp y - timestamp x"
      by (simp add: frameDuration_def)
    have "map (frameDuration (x # y # zs)) [0..<length (x # y # zs)]
        = frameDuration (x # y # zs) 0 #
          map (\<lambda>i. frameDuration (x # y # zs) (Suc i)) [0..<length (y # zs)]"
      by (simp add: map_upt_Suc del: upt_Suc)
    also have "\<dots> = (timestamp y - timestamp x) # spec_frameDurations (map timestamp (y # zs))"
      by (simp only: shift first 3(2))
    also have "\<dots> = spec_frameDurations (map timestamp (x # y # zs))"
      using Cons by simp
    finally show ?thesis .
  qed
qed

lemma spec_closedTimeMs_sum:
  "spec_closedTimeMs rs = (\<Sum>k = 0..<length rs. closedContribution rs k)"
proof -
  have "zip rs (spec_frameDurations (map timestamp rs))
      = zip (map ((!) rs) [0..<length rs]) (map (frameDuration rs) [0..<length rs])"
    by (simp add: frameDurations_spec map_nth)
  also have "\<dots> = map (\<lambda>i. (rs ! i, frameDuration rs i)) [0..<length rs]"
    by (simp add: zip_map_map zip_same_conv_map)
  finally show ?thesis
    by (simp add: spec_closedTimeMs_def closedContribution_def comp_def
        interv_sum_list_conv_sum_set_nat)
qed

text \<open>
  Claim C3: the loop of \<open>calculateClosurePercentage\<close> gives every sample the frame
  duration the specification describes (the difference to the next sample; for the last
  one the difference to the one before, or 33 when it is alone) and adds it to the closed
  time exactly when the sample's ratio is below the threshold. For the detector made at
  time 0 with the samples (0, 0.1), (1000, 0.1), (2000, 0.3), queried at 2000: the closed
  time is 2000, the PERCLOS 100, the score 0 and the level fatigue.
\<close>

theorem closed_time_by_frame_durations:
  "map (frameDuration rs) [0..<length rs] = spec_frameDurations (map timestamp rs) \<and>
   closedTimeLoop rs 0 0 = spec_closedTimeMs rs \<and>
   closedTimeLoop (getRecentEARs 2000
     \<lparr>earHistory = [\<lparr>timestamp = 0, ear = Fin 0.1\<rparr>, \<lparr>timestamp = 1000, ear = Fin 0.1\<rparr>,
                    \<lparr>timestamp = 2000, ear = Fin 0.3\<rparr>],
      startTime = 0, lastUpdateTime = 2000\<rparr>) 0 0 = 2000 \<and>
   calculatePERCLOS 2000 2000
     \<lparr>earHistory = [\<lparr>timestamp = 0, ear = Fin 0.1\<rparr>, \<lparr>timestamp = 1000, ear = Fin 0.1\<rparr>,
                    \<lparr>timestamp = 2000, ear = Fin 0.3\<rparr>],
      startTime = 0, lastUpdateTime = 2000\<rparr> = Fin 100 \<and>
   getScore 2000 2000
     \<lparr>earHistory = [\<lparr>timestamp = 0, ear = Fin 0.1\<rparr>, \<lparr>timestamp = 1000, ear = Fin 0.1\<rparr>,
                    \<lparr>timestamp = 2000, ear = Fin 0.3\<rparr>],
      startTime = 0, lastUpdateTime = 2000\<rparr>
     = \<lparr>score = Fin 0, level = Fatigue, details = Fin 100\<rparr>"
proof -
  have general: "map (frameDuration rs) [0..<length rs] = spec_frameDurations (map timestamp rs)"
    "closedTimeLoop rs 0 0 = spec_closedTimeMs rs"
    by (simp_all add: closedTimeLoop_sum spec_closedTimeMs_sum frameDurations_spec)
  have scenario: "closedTimeLoop (getRecentEARs 2000
     \<lparr>earHistory = [\<lparr>timestamp = 0, ear = Fin 0.1\<rparr>, \<lparr>timestamp = 1000, ear = Fin 0.1\<rparr>,
                    \<lparr>timestamp = 2000, ear = Fin 0.3\<rparr>],
      startTime = 0, lastUpdateTime = 2000\<rparr>) 0 0 = 2000"
    by (simp add: perclos_defs)
  have "calculatePERCLOS 2000 2000
     \<lparr>earHistory = [\<lparr>timestamp = 0, ear = Fin 0.1\<rparr>, \<lparr>timestamp = 1000, ear = Fin 0.1\<rparr>,
                    \<lparr>timestamp = 2000, ear = Fin 0.3\<rparr>],
      startTime = 0, lastUpdateTime = 2000\<rparr> = Fin 100"
    by (simp add: perclos_defs)
  then show ?thesis
    using general scenario by (simp add: getScore_def score_defs)
qed

section \<open>Ratios that are not finite\<close>

lemma not_negative_rounded: "not_negative a \<Longrightarrow> not_negative (rounded a)"
  by (cases a) (simp_all add: rounded_def fl_nonneg)

lemma not_negative_sqrt: "not_negative (b64_sqrt a)"
  unfolding b64_sqrt_def by (rule not_negative_rounded) (cases a, simp_all)

lemma not_negative_add: "not_negative a \<Longrightarrow> not_negative b \<Longrightarrow> not_negative (b64_add a b)"
  unfolding b64_add_def by (rule not_negative_rounded) (cases a; cases b; simp)

lemma not_negative_mul: "not_negative a \<Longrightarrow> not_negative b \<Longrightarrow> not_negative (b64_mul a b)"
  unfolding b64_mul_def by (rule not_negative_rounded) (cases a; cases b; simp)

lemma not_negative_div: "not_negative a \<Longrightarrow> not_negative b \<Longrightarrow> not_negative (b64_div a b)"
  unfolding b64_div_def by (rule not_negative_rounded) (cases a; cases b; simp)

lemma not_negative_distance: "distance p q = Inr v \<Longrightarrow> not_negative v"
  by (cases p; cases q) (auto simp: Let_def not_negative_sqrt)

lemma not_negative_calculateEAR: "calculateEAR keypoints indices = Inr e \<Longrightarrow> not_negative e"
proof -
  assume "calculateEAR keypoints indices = Inr e"
  then obtain v1 v2 h where
    d: "distance (at_index keypoints (idx_p2 indices)) (at_index keypoints (idx_p6 indices)) = Inr v1"
       "distance (at_index keypoints (idx_p3 indices)) (at_index keypoints (idx_p5 indices)) = Inr v2"
       "distance (at_index keypoints (idx_p1 indices)) (at_index keypoints (idx_p4 indices)) = Inr h"
    and e: "e = b64_div (b64_add v1 v2) (b64_mul (Fin 2) h)"
    by (auto simp: calculateEAR_def Let_def split: sum.splits)
  have "not_negative v1" "not_negative v2" "not_negative h"
    using d by (auto dest: not_negative_distance)
  then show ?thesis
    unfolding e by (intro not_negative_div not_negative_add not_negative_mul) simp_all
qed

lemma not_negative_avgEAR: "avgEAR keypoints = Inr a \<Longrightarrow> not_negative a"
proof -
  assume "avgEAR keypoints = Inr a"
  then obtain l r where
    c: "calculateEAR keypoints EYE_LANDMARKS_LEFT = Inr l"
       "calculateEAR keypoints EYE_LANDMARKS_RIGHT = Inr r"
    and a: "a = b64_div (b64_add l r) (Fin 2)"
    by (auto simp: avgEAR_def split: sum.splits)
  have "not_negative l" "not_negative r"
    using c by (auto dest: not_negative_calculateEAR)
  then show ?thesis
    unfolding a by (intro not_negative_div not_negative_add) simp_all
qed

lemma not_finite_not_closed:
  "not_negative a \<Longrightarrow> \<not> is_finite a \<Longrightarrow> \<not> js_lt a EAR_THRESHOLD"
  by (cases a) (simp_all add: EAR_THRESHOLD_def)

lemma frameDuration_update_ear:
  "i < length rs \<Longrightarrow> frameDuration (rs[i := (rs ! i)\<lparr>ear := b\<rparr>]) k = frameDuration rs k"
  by (simp add: frameDuration_def nth_list_update)

lemma closedContribution_update_ear:
  "i < length rs \<Longrightarrow> closedContribution (rs[i := (rs ! i)\<lparr>ear := b\<rparr>]) k =
     (if k = i then (if js_lt b EAR_THRESHOLD then frameDuration rs i else 0)
      else closedContribution rs k)"
  by (simp add: closedContribution_def frameDuration_update_ear nth_list_update)

lemma closedTimeLoop_update_ear:
  assumes "i < length rs" "\<not> js_lt (ear (rs ! i)) EAR_THRESHOLD"
  shows "closedTimeLoop (rs[i := (rs ! i)\<lparr>ear := b\<rparr>]) 0 0 =
         closedTimeLoop rs 0 0 + (if js_lt b EAR_THRESHOLD then frameDuration rs i else 0)"
proof -
  let ?A = "{0..<length rs}"
  have i: "i \<in> ?A" "finite ?A" using assms by simp_all
  have "closedTimeLoop (rs[i := (rs ! i)\<lparr>ear := b\<rparr>]) 0 0
      = (\<Sum>k\<in>?A. closedContribution (rs[i := (rs ! i)\<lparr>ear := b\<rparr>]) k)"
    by (simp add: closedTimeLoop_sum)
  also have "\<dots> = (if js_lt b EAR_THRESHOLD then frameDuration rs i else 0)
                  + (\<Sum>k\<in>?A - {i}. closedContribution rs k)"
    using i assms(1) by (simp add: sum.remove [of ?A i] closedContribution_update_ear)
  also have "(\<Sum>k\<in>?A - {i}. closedContribution rs k) = (\<Sum>k\<in>?A. closedContribution rs k)"
    using i assms(2) by (simp add: sum.remove [of ?A i] closedContribution_def)
  finally show ?thesis by (simp add: closedTimeLoop_sum)
qed

lemma frameDuration_nonneg:
  assumes "sorted (map timestamp rs)" "i < length rs"
  shows "0 \<le> frameDuration rs i"
proof -
  have "\<And>j k. j \<le> k \<Longrightarrow> k < length rs \<Longrightarrow> timestamp (rs ! j) \<le> timestamp (rs ! k)"
    using assms(1) sorted_nth_mono [of "map timestamp rs"] by fastforce
  then show ?thesis using assms(2) by (auto simp: frameDuration_def)
qed

lemma calculateClosurePercentage_pos:
  "0 < w \<Longrightarrow> calculateClosurePercentage rs w =
     Fin (if rs = [] then 0 else real_of_int (closedTimeLoop rs 0 0) / real_of_int w * 100)"
  by (simp add: calculateClosurePercentage_def)

text \<open>
  Claim C7: a sample whose ratio is not finite counts as an open eye. The ratio of a
  sample is what \<open>update\<close> computed from the keypoints of a frame; when that value is not
  finite it is NaN or plus infinity (a ratio of distances is never minus infinity), and
  it is not below the threshold. So the sample adds nothing to the closed time: putting
  any other ratio \<open>b\<close> in its place adds the sample's frame duration when \<open>b\<close> is below
  the threshold and nothing otherwise. With timestamps in order the frame duration is not
  negative, so over any window \<open>w > 0\<close> the PERCLOS with the degenerate ratio is at
  most the PERCLOS with \<open>b\<close>. The computation has no failing path.
\<close>

theorem non_finite_ratio_is_open:
  assumes "avgEAR keypoints = Inr a" and "\<not> is_finite a"
    and "i < length rs" and "ear (rs ! i) = a"
    and "sorted (map timestamp rs)" and "0 < w"
  shows "\<not> js_lt a EAR_THRESHOLD \<and>
         closedTimeLoop (rs[i := (rs ! i)\<lparr>ear := b\<rparr>]) 0 0 =
           closedTimeLoop rs 0 0 + (if js_lt b EAR_THRESHOLD then frameDuration rs i else 0) \<and>
         0 \<le> frameDuration rs i \<and>
         (\<exists>p q. calculateClosurePercentage rs w = Fin p \<and>
                calculateClosurePercentage (rs[i := (rs ! i)\<lparr>ear := b\<rparr>]) w = Fin q \<and> p \<le> q)"
proof -
  have open_a: "\<not> js_lt a EAR_THRESHOLD"
    using assms(1,2) by (intro not_finite_not_closed not_negative_avgEAR)
  have eq: "closedTimeLoop (rs[i := (rs ! i)\<lparr>ear := b\<rparr>]) 0 0 =
           closedTimeLoop rs 0 0 + (if js_lt b EAR_THRESHOLD then frameDuration rs i else 0)"
    using assms(3,4) open_a by (intro closedTimeLoop_update_ear) simp_all
  have nn: "0 \<le> frameDuration rs i"
    using assms(5,3) by (rule frameDuration_nonneg)
  have le: "closedTimeLoop rs 0 0 \<le> closedTimeLoop (rs[i := (rs ! i)\<lparr>ear := b\<rparr>]) 0 0"
    using eq nn by simp
  have ne: "rs \<noteq> []" using assms(3) by auto
  have "calculateClosurePercentage rs w
      = Fin (real_of_int (closedTimeLoop rs 0 0) / real_of_int w * 100)"
    using ne assms(6) by (simp add: calculateClosurePercentage_pos)
  moreover have "calculateClosurePercentage (rs[i := (rs ! i)\<lparr>ear := b\<rparr>]) w
      = Fin (real_of_int (closedTimeLoop (rs[i := (rs ! i)\<lparr>ear := b\<rparr>]) 0 0)
             / real_of_int w * 100)"
    using ne assms(6) by (simp add: calculateClosurePercentage_pos)
  moreover have "real_of_int (closedTimeLoop rs 0 0) / real_of_int w * 100
      \<le> real_of_int (closedTimeLoop (rs[i := (rs ! i)\<lparr>ear := b\<rparr>]) 0 0) / real_of_int w * 100"
    using le assms(6) by (simp add: divide_right_mono)
  ultimately show ?thesis using open_a eq nn by blast
qed

theorem non_finite_ratio_is_open_witness:
  "avgEAR (face 0 3) = Inr PInf \<and>
   closedTimeLoop [\<lparr>timestamp = 0, ear = PInf\<rparr>, \<lparr>timestamp = 1000, ear = Fin 0.1\<rparr>] 0 0
     = 1000 \<and>
   closedTimeLoop [\<lparr>timestamp = 0, ear = Fin 0.1\<rparr>, \<lparr>timestamp = 1000, ear = Fin 0.1\<rparr>] 0 0
     = 2000 \<and>
   calculateClosurePercentage
     [\<lparr>timestamp = 0, ear = PInf\<rparr>, \<lparr>timestamp = 1000, ear = Fin 0.1\<rparr>] 2000 = Fin 50 \<and>
   calculateClosurePercentage
     [\<lparr>timestamp = 0, ear = Fin 0.1\<rparr>, \<lparr>timestamp = 1000, ear = Fin 0.1\<rparr>] 2000 = Fin 100"
proof -
  let ?rs = "[\<lparr>timestamp = 0, ear = PInf\<rparr>, \<lparr>timestamp = 1000, ear = Fin 0.1\<rparr>]"
  have a: "avgEAR (face 0 3) = Inr PInf" by (simp add: avgEAR_face_zero_width)
  have f: "\<not> is_finite PInf" by simp
  have i: "(0::nat) < length ?rs" by simp
  have e: "ear (?rs ! 0) = PInf" by simp
  have s: "sorted (map timestamp ?rs)" by simp
  have w: "(0::int) < 2000" by simp
  have c: "closedTimeLoop ?rs 0 0 = 1000"
    by (simp add: closedTimeLoop.simps EAR_THRESHOLD_def frameDuration_def)
  from non_finite_ratio_is_open [OF a f i e s w, of "Fin 0.1"] a c show ?thesis
    by (simp add: calculateClosurePercentage_def EAR_THRESHOLD_def frameDuration_def)
qed

section \<open>The eye aspect ratio\<close>









section \<open>The range of the score\<close>

lemma reachable_sorted:
  "reachable d \<Longrightarrow>
   sorted (map timestamp (earHistory d)) \<and>
   (\<forall>r \<in> set (earHistory d). timestamp r \<le> lastUpdateTime d)"
proof (induction rule: reachable.induct)
  case (reachable_new t0 t0')
  show ?case by (simp add: new_PERCLOSDetector_def)
next
  case (reachable_update d now now' keypoints d')
  from reachable_update.hyps(4) obtain a where
    d': "d' = cleanOldData now' (d\<lparr>earHistory := earHistory d @ [\<lparr>timestamp = now, ear = a\<rparr>],
                                   lastUpdateTime := now\<rparr>)"
    by (auto simp: update_def split: sum.splits)
  have "sorted (map timestamp (earHistory d @ [\<lparr>timestamp = now, ear = a\<rparr>]))"
    using reachable_update.IH reachable_update.hyps(2) by (fastforce simp: sorted_append)
  then have "sorted (map timestamp (earHistory d'))"
    unfolding d' cleanOldData_def Let_def by (simp add: sorted_filter del: filter_append)
  moreover have "\<forall>r \<in> set (earHistory d'). timestamp r \<le> lastUpdateTime d'"
    using reachable_update.IH reachable_update.hyps(2)
    unfolding d' cleanOldData_def Let_def by (auto split: if_splits)
  ultimately show ?case by simp
qed

lemma closedTimeLoop_nonneg:
  assumes "sorted (map timestamp rs)"
  shows "0 \<le> closedTimeLoop rs 0 0"
proof -
  have "0 \<le> closedContribution rs k" if "k \<in> {0..<length rs}" for k
    using that frameDuration_nonneg [OF assms, of k] by (simp add: closedContribution_def)
  then have "0 \<le> (\<Sum>k = 0..<length rs. closedContribution rs k)" by (rule sum_nonneg)
  then show ?thesis by (simp add: closedTimeLoop_sum)
qed

lemma round_in_range:
  fixes s :: real
  assumes "0 \<le> s" "s \<le> 100"
  shows "is_integer_in 0 100 (Math_round (Fin s))"
proof -
  have "0 \<le> \<lfloor>s + 1 / 2\<rfloor>" using assms(1) by (simp add: le_floor_iff)
  moreover have "\<lfloor>s + 1 / 2\<rfloor> \<le> 100" using assms(2) by (simp add: floor_le_iff)
  ultimately show ?thesis by simp
qed

lemma score_in_range_of_perclos:
  assumes "0 \<le> p"
  shows "is_integer_in 0 100 (score (scoreOfPERCLOS (Fin p)))"
proof -
  consider "20 \<le> p" | "15 \<le> p" "p < 20" | "p < 15" by linarith
  then show ?thesis
  proof cases
    case 1
    have "score (scoreOfPERCLOS (Fin p)) = Math_round (Fin (max 0 (100 - (p - 20) * 4)))"
      using 1 by (simp add: score_defs max_def)
    then show ?thesis using 1 by (simp only: ) (rule round_in_range; simp)
  next
    case 2
    have "score (scoreOfPERCLOS (Fin p)) = Math_round (Fin (100 - (p - 15) * 4))"
      using 2 by (simp add: score_defs)
    then show ?thesis using 2 by (simp only: ) (rule round_in_range; simp)
  next
    case 3
    have "score (scoreOfPERCLOS (Fin p)) = Math_round (Fin (100 - p * (20 / 15)))"
      using 3 by (simp add: score_defs)
    then show ?thesis using 3 assms by (simp only: ) (rule round_in_range; simp)
  qed
qed

text \<open>
  For a reachable detector the score is an integer from 0 to 100 whenever the query reads
  a clock value after the construction's: the window is positive then, and the closed
  time of samples in order is not negative.
\<close>

lemma score_in_range_after_start:
  assumes "reachable d" and "startTime d < now'"
  shows "is_integer_in 0 100 (score (getScore now now' d))"
proof -
  let ?rs = "getRecentEARs now d"
  let ?w = "min (now' - startTime d) WINDOW_MS"
  have w: "0 < ?w" using assms(2) by (simp add: WINDOW_MS_def)
  have "sorted (map timestamp ?rs)"
    using reachable_sorted [OF assms(1)] by (simp add: getRecentEARs_def Let_def sorted_filter)
  then have c: "0 \<le> closedTimeLoop ?rs 0 0" by (rule closedTimeLoop_nonneg)
  have "calculatePERCLOS now now' d = calculateClosurePercentage ?rs ?w"
    by (simp add: calculatePERCLOS_def calculateClosurePercentage_def Let_def)
  also have "\<dots> = Fin (if ?rs = [] then 0
                        else real_of_int (closedTimeLoop ?rs 0 0) / real_of_int ?w * 100)"
    using w by (rule calculateClosurePercentage_pos)
  finally have p: "calculatePERCLOS now now' d =
      Fin (if ?rs = [] then 0 else real_of_int (closedTimeLoop ?rs 0 0) / real_of_int ?w * 100)" .
  have "0 \<le> (if ?rs = [] then 0 else real_of_int (closedTimeLoop ?rs 0 0) / real_of_int ?w * 100)"
    using c w by simp
  then show ?thesis
    unfolding getScore_def p by (rule score_in_range_of_perclos)
qed

lemma score_in_range_after_start_example:
  "reachable \<lparr>earHistory = [\<lparr>timestamp = 0, ear = Fin 0.125\<rparr>], startTime = 0, lastUpdateTime = 0\<rparr> \<and>
   getScore 1000 1000
     \<lparr>earHistory = [\<lparr>timestamp = 0, ear = Fin 0.125\<rparr>], startTime = 0, lastUpdateTime = 0\<rparr>
     = \<lparr>score = Fin 96, level = Normal, details = Fin 3.3\<rparr> \<and>
   is_integer_in 0 100 (Fin 96)"
proof -
  let ?d = "\<lparr>earHistory = [\<lparr>timestamp = 0, ear = Fin 0.125\<rparr>], startTime = 0,
             lastUpdateTime = 0\<rparr>"
  have u: "update (face 8 1) 0 0 (new_PERCLOSDetector 0 0) = Inr ?d"
    by (simp add: update_def avgEAR_face_closed new_PERCLOSDetector_def cleanOldData_def WINDOW_MS_def)
  have n: "reachable (new_PERCLOSDetector 0 0)" by (rule reachable_new) simp
  have r: "reachable ?d"
    by (rule reachable_update [OF n _ _ u]) (simp_all add: new_PERCLOSDetector_def)
  have s: "startTime ?d < 1000" by simp
  have g: "getScore 1000 1000 ?d = \<lparr>score = Fin 96, level = Normal, details = Fin 3.3\<rparr>"
    by (simp add: perclos_defs score_defs)
  from score_in_range_after_start [OF r s, of 1000] r g show ?thesis by simp
qed

text \<open>
  Claim C4 (in every reachable state, at every query time not before the last update, the
  score is an integer from 0 to 100). The interface's comment on \<open>score\<close> gives the same
  range. The detector made at clock value 0 and updated at 0 with an open eye (ratio 0.5)
  is reachable; queried at 0 its window is 0 and its closed time 0, the PERCLOS is
  \<open>0 / 0\<close>, and the score is NaN.
\<close>

theorem score_is_NaN_at_construction_time:
  "reachable \<lparr>earHistory = [\<lparr>timestamp = 0, ear = Fin 0.5\<rparr>], startTime = 0, lastUpdateTime = 0\<rparr> \<and>
   getScore 0 0
     \<lparr>earHistory = [\<lparr>timestamp = 0, ear = Fin 0.5\<rparr>], startTime = 0, lastUpdateTime = 0\<rparr>
     = \<lparr>score = NaN, level = Normal, details = NaN\<rparr> \<and>
   \<not> is_integer_in 0 100 (score (getScore 0 0
     \<lparr>earHistory = [\<lparr>timestamp = 0, ear = Fin 0.5\<rparr>], startTime = 0, lastUpdateTime = 0\<rparr>))"
proof -
  let ?d = "\<lparr>earHistory = [\<lparr>timestamp = 0, ear = Fin 0.5\<rparr>], startTime = 0,
             lastUpdateTime = 0\<rparr>"
  have u: "update (face 8 4) 0 0 (new_PERCLOSDetector 0 0) = Inr ?d"
    by (simp add: update_def avgEAR_face_open new_PERCLOSDetector_def cleanOldData_def WINDOW_MS_def)
  have n: "reachable (new_PERCLOSDetector 0 0)" by (rule reachable_new) simp
  have "reachable ?d"
    by (rule reachable_update [OF n _ _ u]) (simp_all add: new_PERCLOSDetector_def)
  moreover have "getScore 0 0 ?d = \<lparr>score = NaN, level = Normal, details = NaN\<rparr>"
    by (simp add: perclos_defs score_defs)
  ultimately show ?thesis by simp
qed

end
